theory Spec2Isabelle
  imports Main "HOL-Library.Sublist"
begin

section \<open>JavaScript strings\<close>

text \<open>
  A JavaScript string is a sequence of code units. The model uses \<^typ>\<open>string\<close> and reads
  a \<^typ>\<open>char\<close> as a code unit below 256 (the Latin-1 range). \<open>String.prototype.trim\<close>
  removes white space and line terminators at both ends; in this range these are TAB, LF,
  VT, FF, CR, SPACE and NBSP. \<open>toLowerCase\<close> maps A-Z and the upper-case letters of
  U+00C0..U+00DE (the multiplication sign U+00D7 apart) to the code unit 32 above.
  \<open>includes\<close> is true when the argument occurs as a contiguous run of the receiver.
\<close>

definition isWhiteSpace :: "char \<Rightarrow> bool" where
  "isWhiteSpace c =
     (c \<in> set [CHR 0x09, CHR 0x0A, CHR 0x0B, CHR 0x0C, CHR 0x0D, CHR 0x20, CHR 0xA0])"

definition trim :: "string \<Rightarrow> string" where
  "trim s = rev (dropWhile isWhiteSpace (rev (dropWhile isWhiteSpace s)))"

definition lowerChar :: "char \<Rightarrow> char" where
  "lowerChar c =
     (let n = (of_char c :: nat) in
      if (65 \<le> n \<and> n \<le> 90) \<or> (192 \<le> n \<and> n \<le> 222 \<and> n \<noteq> 215)
      then char_of (n + 32) else c)"

definition toLowerCase :: "string \<Rightarrow> string" where
  "toLowerCase s = map lowerChar s"

fun str_includes :: "string \<Rightarrow> string \<Rightarrow> bool" where
  "str_includes [] query = (query = [])"
| "str_includes (c # s) query = (prefix query (c # s) \<or> str_includes s query)"

section \<open>Data model\<close>

text \<open>
  The editor form and the payload built from it have the same five fields. The body of a
  POST adds \<open>isFavorite\<close>; a book of the remote resource also has its \<open>id\<close>
  (field \<open>bookId\<close> here, since \<open>id\<close> is the identity function of HOL). Identifiers
  are strings, as the mock REST service issues them; the empty string is the falsy one.
  Ratings are integers.
\<close>

record book_fields =
  title :: string
  author :: string
  coverImage :: string
  description :: string
  rating :: int

record new_book = book_fields +
  isFavorite :: bool

record book = new_book +
  bookId :: string

datatype toast_type = Success | Error | Info

text \<open>The toast state \<open>{show, msg, type}\<close>; messages are kept without their pictograph.\<close>

record toast =
  shown :: bool
  msg :: string
  kind :: toast_type

text \<open>The component state of \<open>App\<close>: one field per \<open>useState\<close> (\<open>q\<close> is \<open>q_text\<close>).\<close>

record app =
  books :: "book list"
  loading :: bool
  q_text :: string
  onlyFav :: bool
  toast :: toast
  isModalOpen :: bool
  editing :: "book option"
  confirmId :: "string option"
  form :: book_fields

section \<open>The remote resource\<close>

text \<open>
  \<open>fetch\<close> either rejects (network failure) or resolves to a response with its \<open>ok\<close>
  flag and a body. For the verbs whose helper calls \<open>res.json()\<close> the body is
  \<open>None\<close> when it does not parse, and \<open>json()\<close> rejects. The body of a GET is an
  array of books or some other JSON value.
\<close>

datatype 'a fetched = Rejected | Response bool 'a

datatype get_data = Array "book list" | NotArray

datatype js_error = TypeError | Failed string | SyntaxError

record remote =
  fetchGet :: "get_data option fetched"
  fetchPost :: "new_book \<Rightarrow> book option fetched"
  fetchPut :: "string \<Rightarrow> book \<Rightarrow> book option fetched"
  fetchDelete :: "string \<Rightarrow> unit fetched"

datatype request = GET | POST new_book | PUT string book | DELETE string

definition API_URL :: string where
  "API_URL = ''https://698861e1780e8375a6882998.mockapi.io/api/v1/books''"

definition hasApi :: bool where
  "hasApi = (API_URL \<noteq> [])"

definition parsed :: "string \<Rightarrow> 'a option fetched \<Rightarrow> js_error + 'a" where
  "parsed m r =
     (case r of
        Rejected \<Rightarrow> Inl TypeError
      | Response ok body \<Rightarrow>
          if \<not> ok then Inl (Failed m)
          else (case body of None \<Rightarrow> Inl SyntaxError | Some d \<Rightarrow> Inr d))"

definition apiGet :: "remote \<Rightarrow> js_error + get_data" where
  "apiGet srv = parsed ''GET failed'' (fetchGet srv)"

definition apiPost :: "remote \<Rightarrow> new_book \<Rightarrow> js_error + book" where
  "apiPost srv data = parsed ''POST failed'' (fetchPost srv data)"

definition apiPut :: "remote \<Rightarrow> string \<Rightarrow> book \<Rightarrow> js_error + book" where
  "apiPut srv i data = parsed ''PUT failed'' (fetchPut srv i data)"

definition apiDel :: "remote \<Rightarrow> string \<Rightarrow> js_error + unit" where
  "apiDel srv i =
     (case fetchDelete srv i of
        Rejected \<Rightarrow> Inl TypeError
      | Response ok body \<Rightarrow> if \<not> ok then Inl (Failed ''DELETE failed'') else Inr ())"

section \<open>Transient state\<close>

definition showToast :: "string \<Rightarrow> toast_type \<Rightarrow> app \<Rightarrow> app" where
  "showToast m t st = st\<lparr>toast := \<lparr>shown = True, msg = m, kind = t\<rparr>\<rparr>"

definition emptyForm :: book_fields where
  "emptyForm = \<lparr>title = [], author = [], coverImage = [], description = [], rating = 0\<rparr>"

definition resetForm :: "app \<Rightarrow> app" where
  "resetForm st = st\<lparr>form := emptyForm\<rparr>"

definition openCreate :: "app \<Rightarrow> app" where
  "openCreate st = (resetForm (st\<lparr>editing := None\<rparr>))\<lparr>isModalOpen := True\<rparr>"

definition openEdit :: "book \<Rightarrow> app \<Rightarrow> app" where
  "openEdit b st =
     st\<lparr>editing := Some b,
        form := \<lparr>title = title b, author = author b, coverImage = coverImage b,
                 description = description b, rating = rating b\<rparr>,
        isModalOpen := True\<rparr>"

definition closeModal :: "app \<Rightarrow> app" where
  "closeModal st = st\<lparr>isModalOpen := False, editing := None\<rparr>"

definition initialApp :: app where
  "initialApp =
     \<lparr>books = [], loading = hasApi, q_text = [], onlyFav = False,
      toast = \<lparr>shown = False, msg = [], kind = Success\<rparr>,
      isModalOpen = False, editing = None, confirmId = None, form = emptyForm\<rparr>"

section \<open>Initial load\<close>

text \<open>Every handler returns the new state and the remote calls it made, in order.\<close>

definition initialLoad :: "remote \<Rightarrow> app \<Rightarrow> app \<times> request list" where
  "initialLoad srv st =
     (if \<not> hasApi then (st\<lparr>loading := False\<rparr>, [])
      else
        (case apiGet srv of
           Inr data \<Rightarrow>
             ((st\<lparr>books := (case data of Array bs \<Rightarrow> bs | NotArray \<Rightarrow> [])\<rparr>)\<lparr>loading := False\<rparr>,
              [GET])
         | Inl e \<Rightarrow>
             ((showToast ''Cannot load books. Check your API URL.'' Error st)\<lparr>loading := False\<rparr>,
              [GET])))"

section \<open>View projection\<close>

definition filtered :: "app \<Rightarrow> book list" where
  "filtered st =
     (let query = toLowerCase (trim (q_text st)) in
      filter (\<lambda>b. if query \<noteq> [] then str_includes (toLowerCase (title b)) query else True)
        (filter (\<lambda>b. if onlyFav st then isFavorite b else True) (books st)))"

section \<open>Commands\<close>

definition placeholder :: string where
  "placeholder = ''https://picsum.photos/400/520''"

definition payload :: "book_fields \<Rightarrow> book_fields" where
  "payload f =
     \<lparr>title = trim (title f),
      author = trim (author f),
      coverImage = (if trim (coverImage f) \<noteq> [] then trim (coverImage f) else placeholder),
      description = trim (description f),
      rating = max 0 (min 5 (rating f))\<rparr>"

text \<open>\<open>{ ...editing, ...payload }\<close>: the payload's five fields over the edited record.\<close>

definition merged :: "book \<Rightarrow> book_fields \<Rightarrow> book" where
  "merged ed p =
     ed\<lparr>title := title p, author := author p, coverImage := coverImage p,
        description := description p, rating := rating p\<rparr>"

text \<open>\<open>{ ...payload, isFavorite: false }\<close>\<close>

definition created_body :: "book_fields \<Rightarrow> new_book" where
  "created_body p =
     \<lparr>title = title p, author = author p, coverImage = coverImage p,
      description = description p, rating = rating p, isFavorite = False\<rparr>"

text \<open>\<open>prev.map((b) => (b.id === updated.id ? updated : b))\<close>\<close>

definition replaceById :: "book \<Rightarrow> book list \<Rightarrow> book list" where
  "replaceById updated prev = map (\<lambda>b. if bookId b = bookId updated then updated else b) prev"

definition saveBook :: "remote \<Rightarrow> app \<Rightarrow> app \<times> request list" where
  "saveBook srv st =
     (if trim (title (form st)) = [] \<or> trim (author (form st)) = []
      then (showToast ''Please fill Title and Author'' Error st, [])
      else
        (case editing st of
           Some ed \<Rightarrow>
             (case apiPut srv (bookId ed) (merged ed (payload (form st))) of
                Inr updated \<Rightarrow>
                  (resetForm (closeModal (showToast ''Book updated'' Success
                     (st\<lparr>books := replaceById updated (books st)\<rparr>))),
                   [PUT (bookId ed) (merged ed (payload (form st)))])
              | Inl e \<Rightarrow>
                  (showToast ''Save failed. Check API / network.'' Error st,
                   [PUT (bookId ed) (merged ed (payload (form st)))]))
         | None \<Rightarrow>
             (case apiPost srv (created_body (payload (form st))) of
                Inr created \<Rightarrow>
                  (resetForm (closeModal (showToast ''Book added'' Success
                     (st\<lparr>books := books st @ [created]\<rparr>))),
                   [POST (created_body (payload (form st)))])
              | Inl e \<Rightarrow>
                  (showToast ''Save failed. Check API / network.'' Error st,
                   [POST (created_body (payload (form st)))]))))"

definition flipped :: "book \<Rightarrow> book" where
  "flipped b = b\<lparr>isFavorite := \<not> isFavorite b\<rparr>"

definition toggleFav :: "remote \<Rightarrow> book \<Rightarrow> app \<Rightarrow> app \<times> request list" where
  "toggleFav srv b st =
     (case apiPut srv (bookId b) (flipped b) of
        Inr updated \<Rightarrow>
          (showToast (if isFavorite updated then ''Added to favorites''
                      else ''Removed from favorites'') Info
             (st\<lparr>books := replaceById updated (books st)\<rparr>),
           [PUT (bookId b) (flipped b)])
      | Inl e \<Rightarrow> (showToast ''Failed to update favorite'' Error st, [PUT (bookId b) (flipped b)]))"

definition askDelete :: "string \<Rightarrow> app \<Rightarrow> app" where
  "askDelete i st = st\<lparr>confirmId := Some i\<rparr>"

text \<open>The confirmation dialog's Cancel, close button and backdrop: \<open>setConfirmId(null)\<close>.\<close>

definition cancelDelete :: "app \<Rightarrow> app" where
  "cancelDelete st = st\<lparr>confirmId := None\<rparr>"

text \<open>\<open>!id\<close> holds for \<open>null\<close> and for the empty string.\<close>

definition doDelete :: "remote \<Rightarrow> app \<Rightarrow> app \<times> request list" where
  "doDelete srv st =
     (case confirmId st of
        None \<Rightarrow> (st, [])
      | Some i \<Rightarrow>
          if i = [] then (st, [])
          else
            (case apiDel srv i of
               Inr u \<Rightarrow>
                 ((showToast ''Book deleted'' Success
                     (st\<lparr>books := filter (\<lambda>b. bookId b \<noteq> i) (books st)\<rparr>))\<lparr>confirmId := None\<rparr>,
                  [DELETE i])
             | Inl e \<Rightarrow> ((showToast ''Delete failed'' Error st)\<lparr>confirmId := None\<rparr>, [DELETE i])))"

section \<open>User intents\<close>

text \<open>
  The intents the presentation layer dispatches, and the state after one of them has run
  to completion against a given behaviour of the remote resource.
\<close>

datatype action =
    InitialLoad
  | SetQ string
  | ToggleOnlyFav
  | OpenCreate
  | OpenEdit book
  | CloseModal
  | SetTitle string
  | SetAuthor string
  | SetCoverImage string
  | SetDescription string
  | SetRating int
  | SaveBook
  | ToggleFav book
  | AskDelete string
  | CancelDelete
  | DoDelete

fun step :: "remote \<Rightarrow> action \<Rightarrow> app \<Rightarrow> app \<times> request list" where
  "step srv InitialLoad st = initialLoad srv st"
| "step srv (SetQ s) st = (st\<lparr>q_text := s\<rparr>, [])"
| "step srv ToggleOnlyFav st = (st\<lparr>onlyFav := \<not> onlyFav st\<rparr>, [])"
| "step srv OpenCreate st = (openCreate st, [])"
| "step srv (OpenEdit b) st = (openEdit b st, [])"
| "step srv CloseModal st = (closeModal st, [])"
| "step srv (SetTitle s) st = (st\<lparr>form := (form st)\<lparr>title := s\<rparr>\<rparr>, [])"
| "step srv (SetAuthor s) st = (st\<lparr>form := (form st)\<lparr>author := s\<rparr>\<rparr>, [])"
| "step srv (SetCoverImage s) st = (st\<lparr>form := (form st)\<lparr>coverImage := s\<rparr>\<rparr>, [])"
| "step srv (SetDescription s) st = (st\<lparr>form := (form st)\<lparr>description := s\<rparr>\<rparr>, [])"
| "step srv (SetRating v) st = (st\<lparr>form := (form st)\<lparr>rating := v\<rparr>\<rparr>, [])"
| "step srv SaveBook st = saveBook srv st"
| "step srv (ToggleFav b) st = toggleFav srv b st"
| "step srv (AskDelete i) st = (askDelete i st, [])"
| "step srv CancelDelete st = (cancelDelete st, [])"
| "step srv DoDelete st = doDelete srv st"

text \<open>A sequence of intents, each with the remote resource's behaviour at that time.\<close>

fun run :: "(remote \<times> action) list \<Rightarrow> app \<Rightarrow> app" where
  "run [] st = st"
| "run ((srv, a) # evs) st = run evs (fst (step srv a st))"

text \<open>Whether a remote call of the trace threw.\<close>

fun threw :: "remote \<Rightarrow> request \<Rightarrow> bool" where
  "threw srv GET = isl (apiGet srv)"
| "threw srv (POST data) = isl (apiPost srv data)"
| "threw srv (PUT i data) = isl (apiPut srv i data)"
| "threw srv (DELETE i) = isl (apiDel srv i)"

text \<open>
  The rules for identifiers a remote resource follows when it answers an intent: the
  listed records have pairwise different ids, the id of a created record is not among the
  ids of the store, and a replaced record comes back under the id of the request.
\<close>

fun id_rules :: "remote \<Rightarrow> action \<Rightarrow> app \<Rightarrow> bool" where
  "id_rules srv InitialLoad st =
     (case apiGet srv of Inr (Array bs) \<Rightarrow> distinct (map bookId bs) | _ \<Rightarrow> True)"
| "id_rules srv SaveBook st =
     (case editing st of
        None \<Rightarrow>
          (case apiPost srv (created_body (payload (form st))) of
             Inr created \<Rightarrow> bookId created \<notin> set (map bookId (books st))
           | Inl e \<Rightarrow> True)
      | Some ed \<Rightarrow>
          (case apiPut srv (bookId ed) (merged ed (payload (form st))) of
             Inr updated \<Rightarrow> bookId updated = bookId ed
           | Inl e \<Rightarrow> True))"
| "id_rules srv (ToggleFav b) st =
     (case apiPut srv (bookId b) (flipped b) of
        Inr updated \<Rightarrow> bookId updated = bookId b
      | Inl e \<Rightarrow> True)"
| "id_rules srv a st = True"

fun run_rules :: "(remote \<times> action) list \<Rightarrow> app \<Rightarrow> bool" where
  "run_rules [] st = True"
| "run_rules ((srv, a) # evs) st = (id_rules srv a st \<and> run_rules evs (fst (step srv a st)))"

section \<open>Example data\<close>

definition dune :: book where
  "dune =
     \<lparr>title = ''Dune'', author = ''Herbert'', coverImage = placeholder, description = [],
      rating = 4, isFavorite = False, bookId = ''1''\<rparr>"

text \<open>
  The record a remote resource creates from the body of a POST: the fields it was sent,
  under the id it assigns. A remote resource that lists \<open>bs\<close>, gives a created record
  the id \<open>n\<close>, returns the record it is sent on PUT and accepts every DELETE; and one
  that answers every request with a non-success status.
\<close>

definition withId :: "new_book \<Rightarrow> string \<Rightarrow> book" where
  "withId d i =
     \<lparr>title = title d, author = author d, coverImage = coverImage d,
      description = description d, rating = rating d, isFavorite = isFavorite d,
      bookId = i\<rparr>"

definition restServer :: "string \<Rightarrow> book list \<Rightarrow> remote" where
  "restServer n bs =
     \<lparr>fetchGet = Response True (Some (Array bs)),
      fetchPost = (\<lambda>d. Response True (Some (withId d n))),
      fetchPut = (\<lambda>i d. Response True (Some d)),
      fetchDelete = (\<lambda>i. Response True ())\<rparr>"

definition failingServer :: remote where
  "failingServer =
     \<lparr>fetchGet = Response False None,
      fetchPost = (\<lambda>d. Response False None),
      fetchPut = (\<lambda>i d. Response False None),
      fetchDelete = (\<lambda>i. Response False ())\<rparr>"

text \<open>The store holds \<open>dune\<close> and the editor is open on it.\<close>

definition editingDune :: app where
  "editingDune = openEdit dune (initialApp\<lparr>books := [dune]\<rparr>)"

text \<open>The editor is open for a new book; only the author has been typed.\<close>

definition draftNoTitle :: app where
  "draftNoTitle = fst (step (restServer ''2'' []) (SetAuthor ''X'') (openCreate (initialApp\<lparr>books := [dune]\<rparr>)))"

text \<open>A remote resource whose list answer is a JSON object, not an array.\<close>

definition objectServer :: remote where
  "objectServer = (restServer ''2'' [])\<lparr>fetchGet := Response True (Some NotArray)\<rparr>"

definition emma :: book where
  "emma =
     \<lparr>title = ''Emma'', author = ''Austen'', coverImage = placeholder, description = [],
      rating = 5, isFavorite = True, bookId = ''2''\<rparr>"

text \<open>The store holds two books and the confirmation dialog is open on the first.\<close>

definition confirmingDune :: app where
  "confirmingDune = askDelete ''1'' (initialApp\<lparr>books := [dune, emma]\<rparr>)"

text \<open>The store holds \<open>dune\<close>; then the search box reads \<open>DUN\<close> between blanks.\<close>

definition storeDune :: app where
  "storeDune = initialApp\<lparr>books := [dune]\<rparr>"

definition searchingDun :: app where
  "searchingDun = storeDune\<lparr>q_text := ''  DUN ''\<rparr>"

text \<open>
  The editor is open for a new book whose title and cover URL were typed with blanks
  around them; and the body that save builds from this draft.
\<close>

definition draftPadded :: app where
  "draftPadded =
     (openCreate storeDune)
       \<lparr>form := \<lparr>title = '' Emma '', author = ''Austen'',
                 coverImage = '' https://example.org/emma.png'', description = [],
                 rating = 5\<rparr>\<rparr>"

definition emmaBody :: new_book where
  "emmaBody =
     \<lparr>title = ''Emma'', author = ''Austen'', coverImage = ''https://example.org/emma.png'',
      description = [], rating = 5, isFavorite = False\<rparr>"

text \<open>
  A session: load, create a book, favorite the first one, edit its rating, then delete
  the second one (the first attempt fails).
\<close>

definition sampleSession :: "(remote \<times> action) list" where
  "sampleSession =
     [(restServer ''2'' [dune], InitialLoad),
      (restServer ''2'' [dune], OpenCreate),
      (restServer ''2'' [dune], SetTitle '' Emma ''),
      (restServer ''2'' [dune], SetAuthor ''Austen''),
      (restServer ''2'' [dune], SaveBook),
      (restServer ''3'' [dune], ToggleFav dune),
      (restServer ''3'' [dune], OpenEdit (flipped dune)),
      (restServer ''3'' [dune], SetRating 5),
      (restServer ''3'' [dune], SaveBook),
      (restServer ''3'' [dune], AskDelete ''2''),
      (failingServer, DoDelete),
      (restServer ''3'' [dune], AskDelete ''2''),
      (restServer ''3'' [dune], DoDelete)]"

section \<open>Failure of the remote call\<close>

lemma hasApi_holds: "hasApi"
  by (simp add: hasApi_def API_URL_def)

text \<open>
  C1. Whatever the intent (save as create or as update, toggle favorite, delete, and the
  initial load as well): when the remote call it made threw, the store afterwards is the
  store before, and an error notification is shown. So no record is inserted, replaced or
  removed, and after a failed update the record with that id is the one it was.
\<close>

theorem transport_error_leaves_store:
  assumes "snd (step srv a st) = [req]" and "threw srv req"
  shows "books (fst (step srv a st)) = books st \<and>
         shown (toast (fst (step srv a st))) \<and>
         kind (toast (fst (step srv a st))) = Error"
  using assms
  by (cases a)
     (auto simp: initialLoad_def hasApi_holds saveBook_def toggleFav_def doDelete_def
        showToast_def split: if_splits sum.splits option.splits)

theorem transport_error_leaves_store_witness:
  "snd (step failingServer SaveBook editingDune) = [PUT ''1'' dune] \<and>
   threw failingServer (PUT ''1'' dune) \<and>
   books (fst (step failingServer SaveBook editingDune)) = [dune] \<and>
   shown (toast (fst (step failingServer SaveBook editingDune))) \<and>
   kind (toast (fst (step failingServer SaveBook editingDune))) = Error"
proof -
  have tr: "snd (step failingServer SaveBook editingDune) = [PUT ''1'' dune]"
    by code_simp
  have th: "threw failingServer (PUT ''1'' dune)"
    by code_simp
  have bs: "books editingDune = [dune]"
    by (simp add: editingDune_def openEdit_def)
  from transport_error_leaves_store [OF tr th] tr th bs show ?thesis
    by simp
qed

text \<open>
  C9. When the initial list call throws, the handler still returns: the one call made is
  the GET, the store is left as it was (empty, from the initial state), an error
  notification is shown and \<open>loading\<close> is false.
\<close>

theorem failed_load_keeps_running:
  assumes "apiGet srv = Inl e"
  shows "snd (initialLoad srv st) = [GET] \<and>
         fst (initialLoad srv st) =
           st\<lparr>toast := \<lparr>shown = True, msg = ''Cannot load books. Check your API URL.'',
                        kind = Error\<rparr>,
              loading := False\<rparr> \<and>
         books (fst (initialLoad srv st)) = books st \<and>
         \<not> loading (fst (initialLoad srv st)) \<and>
         books (fst (initialLoad srv initialApp)) = []"
  using assms by (simp add: initialLoad_def hasApi_holds showToast_def initialApp_def)

theorem failed_load_keeps_running_witness:
  "apiGet failingServer = Inl (Failed ''GET failed'') \<and>
   loading initialApp \<and>
   books (fst (initialLoad failingServer initialApp)) = [] \<and>
   \<not> loading (fst (initialLoad failingServer initialApp)) \<and>
   kind (toast (fst (initialLoad failingServer initialApp))) = Error"
proof -
  have g: "apiGet failingServer = Inl (Failed ''GET failed'')"
    by (simp add: apiGet_def parsed_def failingServer_def)
  have l: "loading initialApp" "books initialApp = []"
    by (simp_all add: initialApp_def hasApi_holds)
  from failed_load_keeps_running [OF g, of initialApp] g l show ?thesis
    by simp
qed

text \<open>
  C10. When the list call succeeds with a body that is not an array, the store becomes
  the empty collection, \<open>loading\<close> becomes false, and the notification is untouched.
\<close>

theorem non_array_body_loads_empty:
  assumes "apiGet srv = Inr NotArray"
  shows "initialLoad srv st = (st\<lparr>books := [], loading := False\<rparr>, [GET]) \<and>
         books (fst (initialLoad srv st)) = [] \<and>
         toast (fst (initialLoad srv st)) = toast st"
  using assms by (simp add: initialLoad_def hasApi_holds)

theorem non_array_body_loads_empty_witness:
  "apiGet objectServer = Inr NotArray \<and>
   books editingDune = [dune] \<and>
   books (fst (initialLoad objectServer editingDune)) = [] \<and>
   toast (fst (initialLoad objectServer editingDune)) = toast initialApp"
proof -
  have g: "apiGet objectServer = Inr NotArray"
    by (simp add: apiGet_def parsed_def objectServer_def)
  have s: "books editingDune = [dune]" "toast editingDune = toast initialApp"
    by (simp_all add: editingDune_def openEdit_def)
  from non_array_body_loads_empty [OF g, of editingDune] g s show ?thesis
    by simp
qed

section \<open>Validation\<close>

text \<open>
  C3. When the trimmed title or the trimmed author of the draft is empty, save (in create
  and in update mode alike) makes no remote call and changes nothing but the
  notification, which becomes an error: the store, the open editor, its target and the
  draft are as before.
\<close>

theorem invalid_draft_rejected:
  assumes "trim (title (form st)) = [] \<or> trim (author (form st)) = []"
  shows "snd (saveBook srv st) = [] \<and>
         fst (saveBook srv st) =
           st\<lparr>toast := \<lparr>shown = True, msg = ''Please fill Title and Author'', kind = Error\<rparr>\<rparr> \<and>
         books (fst (saveBook srv st)) = books st \<and>
         isModalOpen (fst (saveBook srv st)) = isModalOpen st \<and>
         editing (fst (saveBook srv st)) = editing st \<and>
         form (fst (saveBook srv st)) = form st"
  using assms by (auto simp: saveBook_def showToast_def)

theorem invalid_draft_rejected_witness:
  "trim (title (form draftNoTitle)) = [] \<and>
   snd (saveBook (restServer ''2'' []) draftNoTitle) = [] \<and>
   kind (toast (fst (saveBook (restServer ''2'' []) draftNoTitle))) = Error \<and>
   books (fst (saveBook (restServer ''2'' []) draftNoTitle)) = [dune] \<and>
   isModalOpen (fst (saveBook (restServer ''2'' []) draftNoTitle)) \<and>
   author (form (fst (saveBook (restServer ''2'' []) draftNoTitle))) = ''X''"
proof -
  have t: "trim (title (form draftNoTitle)) = []"
    by code_simp
  have s: "books draftNoTitle = [dune]" "isModalOpen draftNoTitle"
    "author (form draftNoTitle) = ''X''"
    by (simp_all add: draftNoTitle_def openCreate_def resetForm_def)
  from invalid_draft_rejected [of draftNoTitle "restServer ''2'' []"] t s show ?thesis
    by simp
qed

section \<open>Delete\<close>

lemma filter_key_remove1:
  "distinct (map f xs) \<Longrightarrow> b \<in> set xs \<Longrightarrow> filter (\<lambda>x. f x \<noteq> f b) xs = remove1 b xs"
proof (induction xs)
  case Nil
  then show ?case by simp
next
  case (Cons x xs)
  show ?case
  proof (cases "x = b")
    case True
    from Cons.prems have "f x \<notin> f ` set xs"
      by simp
    with True have "\<forall>y\<in>set xs. f y \<noteq> f b"
      by (metis image_eqI)
    then have "filter (\<lambda>y. f y \<noteq> f b) xs = xs"
      by (simp add: filter_id_conv)
    with True show ?thesis by simp
  next
    case False
    with Cons.prems have "b \<in> set xs" "f x \<noteq> f b"
      by (auto simp: image_iff)
    with Cons False show ?thesis by simp
  qed
qed

lemma filter_other_ids_remove1:
  "distinct (map bookId xs) \<Longrightarrow> b \<in> set xs \<Longrightarrow>
   filter (\<lambda>x. bookId x \<noteq> bookId b) xs = remove1 b xs"
  by (rule filter_key_remove1)

text \<open>
  C8. With a pending-delete target \<open>i\<close> (a truthy id, for which the dialog is shown),
  the delete attempt makes the one call \<open>DELETE i\<close> and clears the target whether the
  call threw or not. When it threw the store is unchanged. When it succeeded the store
  keeps, in order and unchanged, exactly the records whose id is not \<open>i\<close>; with
  pairwise different ids that is the store with the one record of id \<open>i\<close> removed.
  Without a target (\<open>null\<close>, or the falsy empty id, for which no dialog is shown) the
  handler makes no attempt and changes nothing, and asking for or cancelling the
  confirmation never changes the store.
\<close>

theorem delete_attempt:
  "(confirmId st = Some i \<and> i \<noteq> [] \<longrightarrow>
      snd (doDelete srv st) = [DELETE i] \<and>
      confirmId (fst (doDelete srv st)) = None \<and>
      (threw srv (DELETE i) \<longrightarrow> books (fst (doDelete srv st)) = books st) \<and>
      (\<not> threw srv (DELETE i) \<longrightarrow>
         books (fst (doDelete srv st)) = filter (\<lambda>b. bookId b \<noteq> i) (books st) \<and>
         (\<forall>b \<in> set (books st). bookId b = i \<and> distinct (map bookId (books st)) \<longrightarrow>
            books (fst (doDelete srv st)) = remove1 b (books st)))) \<and>
   (confirmId st = None \<or> confirmId st = Some [] \<longrightarrow> doDelete srv st = (st, [])) \<and>
   books (askDelete j st) = books st \<and>
   books (cancelDelete st) = books st \<and>
   confirmId (cancelDelete (askDelete j st)) = None"
  by (auto simp: doDelete_def showToast_def askDelete_def cancelDelete_def
        filter_other_ids_remove1 split: sum.splits)

theorem delete_attempt_witness:
  "confirmId confirmingDune = Some ''1'' \<and>
   \<not> threw (restServer ''3'' []) (DELETE ''1'') \<and>
   threw failingServer (DELETE ''1'') \<and>
   books confirmingDune = [dune, emma] \<and>
   books (fst (doDelete (restServer ''3'' []) confirmingDune)) = [emma] \<and>
   confirmId (fst (doDelete (restServer ''3'' []) confirmingDune)) = None \<and>
   books (fst (doDelete failingServer confirmingDune)) = [dune, emma] \<and>
   confirmId (fst (doDelete failingServer confirmingDune)) = None \<and>
   books (cancelDelete confirmingDune) = [dune, emma]"
proof -
  have c: "confirmId confirmingDune = Some ''1''" "books confirmingDune = [dune, emma]"
    by (simp_all add: confirmingDune_def askDelete_def)
  have ok: "\<not> threw (restServer ''3'' []) (DELETE ''1'')"
    by (simp add: apiDel_def restServer_def)
  have ko: "threw failingServer (DELETE ''1'')"
    by (simp add: apiDel_def failingServer_def)
  have f: "filter (\<lambda>b. bookId b \<noteq> ''1'') [dune, emma] = [emma]"
    by (simp add: dune_def emma_def)
  from delete_attempt [of confirmingDune "''1''" "restServer ''3'' []" "''1''"]
    delete_attempt [of confirmingDune "''1''" failingServer "''1''"] c ok ko f
  show ?thesis
    by simp
qed

section \<open>Reconciling the store with a returned record\<close>

lemma map_replace_keys:
  "map f (map (\<lambda>b. if f b = f u then u else b) xs) = map f xs"
  by (induction xs) auto

lemma map_replace_absent:
  "f u \<notin> f ` set xs \<Longrightarrow> map (\<lambda>b. if f b = f u then u else b) xs = xs"
  by (induction xs) auto

lemma map_replace_self:
  "distinct (map f xs) \<Longrightarrow> r \<in> set xs \<Longrightarrow> map (\<lambda>b. if f b = f r then r else b) xs = xs"
proof (induction xs)
  case Nil
  then show ?case by simp
next
  case (Cons x xs)
  show ?case
  proof (cases "x = r")
    case True
    from Cons.prems have "f x \<notin> f ` set xs"
      by simp
    with True have "f r \<notin> f ` set xs"
      by simp
    then have "map (\<lambda>b. if f b = f r then r else b) xs = xs"
      by (rule map_replace_absent)
    with True show ?thesis by simp
  next
    case False
    with Cons.prems have "r \<in> set xs" "f x \<noteq> f r"
      by (auto simp: image_iff)
    with Cons show ?thesis by simp
  qed
qed

lemma replaceById_ids: "map bookId (replaceById u xs) = map bookId xs"
  unfolding replaceById_def by (rule map_replace_keys)

lemma replaceById_absent: "bookId u \<notin> set (map bookId xs) \<Longrightarrow> replaceById u xs = xs"
  unfolding replaceById_def by (simp add: map_replace_absent)

lemma replaceById_nth:
  "k < length xs \<Longrightarrow>
   replaceById u xs ! k = (if bookId (xs ! k) = bookId u then u else xs ! k)"
  by (simp add: replaceById_def)

lemma toggleFav_success:
  "apiPut srv (bookId b) (flipped b) = Inr u \<Longrightarrow>
   books (fst (toggleFav srv b st)) = replaceById u (books st)"
  by (simp add: toggleFav_def showToast_def)

lemma saveBook_update_success:
  "trim (title (form st)) \<noteq> [] \<Longrightarrow> trim (author (form st)) \<noteq> [] \<Longrightarrow> editing st = Some ed \<Longrightarrow>
   apiPut srv (bookId ed) (merged ed (payload (form st))) = Inr u \<Longrightarrow>
   books (fst (saveBook srv st)) = replaceById u (books st)"
  by (simp add: saveBook_def showToast_def closeModal_def resetForm_def)

lemma flipped_twice: "flipped (flipped r) = r"
  by (simp add: flipped_def)

lemma bookId_flipped: "bookId (flipped r) = bookId r"
  by (simp add: flipped_def)

lemma map_replace_twice:
  "f u = f r \<Longrightarrow>
   map (\<lambda>b. if f b = f r then r else b) (map (\<lambda>b. if f b = f u then u else b) xs) =
   map (\<lambda>b. if f b = f r then r else b) xs"
  by (induction xs) auto

text \<open>
  C4, as amended. After a successful update or toggle-favorite the store is the old one
  with every record whose id is the returned record's id overwritten entirely by the
  returned record; the length, the order and the other records are kept. When no record
  has that id the store is unchanged: the returned record is not inserted.
\<close>

theorem reconcile_replaces_by_id:
  "(apiPut srv (bookId b) (flipped b) = Inr u \<longrightarrow>
      books (fst (toggleFav srv b st)) = replaceById u (books st)) \<and>
   (trim (title (form st)) \<noteq> [] \<and> trim (author (form st)) \<noteq> [] \<and> editing st = Some ed \<and>
    apiPut srv (bookId ed) (merged ed (payload (form st))) = Inr u \<longrightarrow>
      books (fst (saveBook srv st)) = replaceById u (books st)) \<and>
   length (replaceById u xs) = length xs \<and>
   (\<forall>k<length xs.
      replaceById u xs ! k = (if bookId (xs ! k) = bookId u then u else xs ! k)) \<and>
   (bookId u \<notin> set (map bookId xs) \<longrightarrow> replaceById u xs = xs)"
proof -
  have "length (replaceById u xs) = length xs"
    by (simp add: replaceById_def)
  then show ?thesis
    using toggleFav_success [of srv b u st] saveBook_update_success [of st ed srv u]
      replaceById_nth [of _ xs u] replaceById_absent [of u xs]
    by blast
qed

theorem reconcile_replaces_by_id_witness:
  "apiPut (restServer ''3'' []) (bookId dune) (flipped dune) = Inr (flipped dune) \<and>
   books (fst (toggleFav (restServer ''3'' []) dune storeDune)) = [flipped dune] \<and>
   bookId (flipped emma) \<notin> set (map bookId [dune]) \<and>
   replaceById (flipped emma) [dune] = [dune]"
proof -
  have p: "apiPut (restServer ''3'' []) (bookId dune) (flipped dune) = Inr (flipped dune)"
    by (simp add: apiPut_def parsed_def restServer_def)
  have i: "bookId (flipped emma) \<notin> set (map bookId [dune])" "bookId (flipped dune) = bookId dune"
    by (simp_all add: dune_def emma_def flipped_def)
  have b: "books storeDune = [dune]"
    by (simp add: storeDune_def)
  have r: "replaceById (flipped dune) [dune] = [flipped dune]"
    using i by (simp add: replaceById_def)
  from reconcile_replaces_by_id [of "restServer ''3'' []" dune "flipped dune" storeDune _ "[dune]"]
    reconcile_replaces_by_id [of _ _ "flipped emma" _ _ "[dune]"] p i b r
  show ?thesis
    by simp
qed

text \<open>
  C4 as stated fails. The store holds only \<open>dune\<close>; a toggle on \<open>emma\<close>, whose
  record left the store while the call was in flight, is confirmed by the remote
  resource with the record under emma's id, which no record of the store has. The store
  still holds only \<open>dune\<close>.
\<close>

theorem upsert_inserts_counterexample:
  "bookId emma \<notin> set (map bookId (books storeDune)) \<and>
   apiPut (restServer ''3'' []) (bookId emma) (flipped emma) = Inr (flipped emma) \<and>
   books (fst (toggleFav (restServer ''3'' []) emma storeDune)) = [dune] \<and>
   flipped emma \<notin> set (books (fst (toggleFav (restServer ''3'' []) emma storeDune)))"
proof -
  have p: "apiPut (restServer ''3'' []) (bookId emma) (flipped emma) = Inr (flipped emma)"
    by (simp add: apiPut_def parsed_def restServer_def)
  have i: "bookId dune \<noteq> bookId emma" "bookId (flipped emma) = bookId emma"
    by (simp_all add: dune_def emma_def flipped_def)
  have b: "books storeDune = [dune]"
    by (simp add: storeDune_def)
  have t: "books (fst (toggleFav (restServer ''3'' []) emma storeDune)) = [dune]"
    using i by (simp add: toggleFav_success [OF p] b replaceById_def)
  have n: "flipped emma \<noteq> dune"
    using i by auto
  from p i b t n show ?thesis
    by simp
qed

section \<open>Toggle favorite\<close>

text \<open>
  C7. Let the remote resource return the record it is sent for the id of \<open>r\<close>. The
  toggle on \<open>r\<close> sends \<open>r\<close> with \<open>isFavorite\<close> negated and nothing else changed,
  and that record replaces \<open>r\<close> in the store. The toggle on the record now shown puts
  \<open>r\<close> back: wherever the store held \<open>r\<close> it holds \<open>r\<close> again, and with pairwise
  different ids the whole store is as it was.
\<close>

theorem toggle_twice_restores:
  assumes echo: "\<And>d. apiPut srv (bookId r) d = Inr d"
  shows "let st1 = fst (toggleFav srv r st);
             st2 = fst (toggleFav srv (flipped r) st1)
         in snd (toggleFav srv r st) = [PUT (bookId r) (r\<lparr>isFavorite := \<not> isFavorite r\<rparr>)] \<and>
            books st1 = replaceById (r\<lparr>isFavorite := \<not> isFavorite r\<rparr>) (books st) \<and>
            books st2 = replaceById r (books st) \<and>
            (\<forall>k<length (books st). books st ! k = r \<longrightarrow>
               books st1 ! k = r\<lparr>isFavorite := \<not> isFavorite r\<rparr> \<and> books st2 ! k = r) \<and>
            (r \<in> set (books st) \<and> distinct (map bookId (books st)) \<longrightarrow> books st2 = books st)"
proof -
  define st1 where "st1 = fst (toggleFav srv r st)"
  define st2 where "st2 = fst (toggleFav srv (flipped r) st1)"
  have tr: "snd (toggleFav srv r st) = [PUT (bookId r) (flipped r)]"
    by (simp add: toggleFav_def echo)
  have b1: "books st1 = replaceById (flipped r) (books st)"
    unfolding st1_def by (rule toggleFav_success) (rule echo)
  have "apiPut srv (bookId (flipped r)) (flipped (flipped r)) = Inr r"
    by (simp add: bookId_flipped flipped_twice echo)
  then have "books st2 = replaceById r (books st1)"
    unfolding st2_def by (rule toggleFav_success)
  then have b2: "books st2 = replaceById r (books st)"
    unfolding b1 replaceById_def
    by (simp only: map_replace_twice [of bookId, OF bookId_flipped])
  have n: "\<forall>k<length (books st). books st ! k = r \<longrightarrow>
             books st1 ! k = flipped r \<and> books st2 ! k = r"
    by (simp add: b1 b2 replaceById_nth bookId_flipped)
  have d: "r \<in> set (books st) \<and> distinct (map bookId (books st)) \<longrightarrow> books st2 = books st"
    unfolding b2 replaceById_def by (simp add: map_replace_self)
  from tr b1 b2 n d have
    "snd (toggleFav srv r st) = [PUT (bookId r) (flipped r)] \<and>
     books st1 = replaceById (flipped r) (books st) \<and>
     books st2 = replaceById r (books st) \<and>
     (\<forall>k<length (books st). books st ! k = r \<longrightarrow>
        books st1 ! k = flipped r \<and> books st2 ! k = r) \<and>
     (r \<in> set (books st) \<and> distinct (map bookId (books st)) \<longrightarrow> books st2 = books st)"
    by blast
  then show ?thesis
    unfolding st1_def st2_def flipped_def Let_def .
qed

theorem toggle_twice_restores_witness:
  "dune \<in> set (books storeDune) \<and>
   apiPut (restServer ''3'' []) (bookId dune) (flipped dune) = Inr (flipped dune) \<and>
   books (fst (toggleFav (restServer ''3'' []) dune storeDune)) = [dune\<lparr>isFavorite := True\<rparr>] \<and>
   books (fst (toggleFav (restServer ''3'' []) (flipped dune)
             (fst (toggleFav (restServer ''3'' []) dune storeDune)))) = [dune]"
proof -
  have e: "\<And>d. apiPut (restServer ''3'' []) (bookId dune) d = Inr d"
    by (simp add: apiPut_def parsed_def restServer_def)
  have b: "books storeDune = [dune]"
    by (simp add: storeDune_def)
  have f: "dune\<lparr>isFavorite := \<not> isFavorite dune\<rparr> = dune\<lparr>isFavorite := True\<rparr>"
    by (simp add: dune_def)
  from toggle_twice_restores [of "restServer ''3'' []" dune storeDune, OF e] e b f
  show ?thesis
    by (simp add: Let_def replaceById_def)
qed

section \<open>View projection\<close>

lemma str_includes_sublist: "str_includes s query \<longleftrightarrow> sublist query s"
  by (induction s) (auto simp: sublist_Cons_right)

lemma filtered_as_filter:
  "filtered st =
     filter (\<lambda>b. (onlyFav st \<longrightarrow> isFavorite b) \<and>
                 sublist (toLowerCase (trim (q_text st))) (toLowerCase (title b)))
       (books st)"
  by (auto simp: filtered_def Let_def str_includes_sublist intro: filter_cong)

text \<open>
  C6. The projection is the store filtered, in store order, by: favorites-only implies
  \<open>isFavorite\<close>, and the trimmed then lower-cased query text is a contiguous part of the
  lower-cased title. An empty trimmed query matches every record. The projection is a
  subsequence of the store, is a function of the store and the two filter fields only,
  and changing a filter field leaves the store alone.
\<close>

theorem view_projection:
  "filtered st =
     filter (\<lambda>b. (onlyFav st \<longrightarrow> isFavorite b) \<and>
                 sublist (toLowerCase (trim (q_text st))) (toLowerCase (title b)))
       (books st) \<and>
   (trim (q_text st) = [] \<longrightarrow> filtered st = filter (\<lambda>b. onlyFav st \<longrightarrow> isFavorite b) (books st)) \<and>
   subseq (filtered st) (books st) \<and>
   (books st' = books st \<and> q_text st' = q_text st \<and> onlyFav st' = onlyFav st \<longrightarrow>
      filtered st' = filtered st) \<and>
   books (fst (step srv (SetQ s) st)) = books st \<and>
   books (fst (step srv ToggleOnlyFav st)) = books st"
proof -
  have a: "trim (q_text st) = [] \<longrightarrow>
           filtered st = filter (\<lambda>b. onlyFav st \<longrightarrow> isFavorite b) (books st)"
    by (simp add: filtered_as_filter toLowerCase_def)
  have b: "subseq (filtered st) (books st)"
    by (simp add: filtered_as_filter)
  have c: "books st' = books st \<and> q_text st' = q_text st \<and> onlyFav st' = onlyFav st \<longrightarrow>
           filtered st' = filtered st"
    by (simp add: filtered_def)
  from a b c show ?thesis
    by (simp add: filtered_as_filter)
qed

theorem view_projection_witness:
  "filtered searchingDun = [dune] \<and>
   filtered (searchingDun\<lparr>onlyFav := True\<rparr>) = [] \<and>
   filtered (fst (toggleFav (restServer ''3'' []) dune (searchingDun\<lparr>onlyFav := True\<rparr>))) =
     [dune\<lparr>isFavorite := True\<rparr>] \<and>
   filtered (searchingDun\<lparr>q_text := ''  ''\<rparr>) = [dune] \<and>
   filtered (searchingDun\<lparr>q_text := ''dunes''\<rparr>) = []"
proof -
  have q: "toLowerCase (trim (q_text searchingDun)) = ''dun''"
    "toLowerCase (title dune) = ''dune''" "trim ''  '' = []" "toLowerCase (trim ''dunes'') = ''dunes''"
    by code_simp+
  have s: "sublist ''dun'' ''dune''" "\<not> sublist ''dunes'' ''dune''"
    by (simp_all add: str_includes_sublist [symmetric])
  have b: "books searchingDun = [dune]" "\<not> onlyFav searchingDun" "\<not> isFavorite dune"
    "title (dune\<lparr>isFavorite := True\<rparr>) = title dune"
    by (simp_all add: searchingDun_def storeDune_def initialApp_def dune_def)
  have p: "\<And>i d. apiPut (restServer ''3'' []) i d = Inr d"
    by (simp add: apiPut_def parsed_def restServer_def)
  have t: "fst (toggleFav (restServer ''3'' []) dune (searchingDun\<lparr>onlyFav := True\<rparr>)) =
           searchingDun\<lparr>onlyFav := True, books := [dune\<lparr>isFavorite := True\<rparr>],
             toast := \<lparr>shown = True, msg = ''Added to favorites'', kind = Info\<rparr>\<rparr>"
    using b by (simp add: toggleFav_def p showToast_def replaceById_def flipped_def)
  have w1: "filtered searchingDun = [dune]"
    using view_projection [of searchingDun searchingDun] q s b by simp
  have w2: "filtered (searchingDun\<lparr>onlyFav := True\<rparr>) = []"
    using q s b by (simp add: filtered_as_filter)
  have w3: "filtered (fst (toggleFav (restServer ''3'' []) dune (searchingDun\<lparr>onlyFav := True\<rparr>))) =
            [dune\<lparr>isFavorite := True\<rparr>]"
    using q s b by (simp add: filtered_as_filter t)
  have w4: "filtered (searchingDun\<lparr>q_text := ''  ''\<rparr>) = [dune]"
    using q s b by (simp add: filtered_as_filter toLowerCase_def)
  have w5: "filtered (searchingDun\<lparr>q_text := ''dunes''\<rparr>) = []"
    using q s b by (simp add: filtered_as_filter)
  from w1 w2 w3 w4 w5 show ?thesis
    by simp
qed

section \<open>Create\<close>

lemma saveBook_create_success:
  "trim (title (form st)) \<noteq> [] \<Longrightarrow> trim (author (form st)) \<noteq> [] \<Longrightarrow> editing st = None \<Longrightarrow>
   apiPost srv (created_body (payload (form st))) = Inr created \<Longrightarrow>
   saveBook srv st =
     (resetForm (closeModal (showToast ''Book added'' Success
        (st\<lparr>books := books st @ [created]\<rparr>))),
      [POST (created_body (payload (form st)))])"
  by (simp add: saveBook_def)

text \<open>
  C2, as amended. For a draft whose trimmed title and trimmed author are non-empty, with
  no record being edited, a successful create makes the one call POST with this body: the
  trimmed title, author and description; the rating clamped to 0..5; the placeholder URL
  when the trimmed cover URL is empty and the trimmed cover URL otherwise; and
  \<open>isFavorite\<close> false. The record the remote resource returns is appended as the one
  new element of the store; when it is the body under an id, it has exactly these fields.
\<close>

theorem create_submits_and_appends:
  assumes "trim (title (form st)) \<noteq> []" and "trim (author (form st)) \<noteq> []"
    and "editing st = None"
    and "apiPost srv (created_body (payload (form st))) = Inr created"
  shows "snd (saveBook srv st) =
           [POST \<lparr>title = trim (title (form st)),
                  author = trim (author (form st)),
                  coverImage = (if trim (coverImage (form st)) = [] then placeholder
                                else trim (coverImage (form st))),
                  description = trim (description (form st)),
                  rating = (if rating (form st) < 0 then 0
                            else if 5 < rating (form st) then 5 else rating (form st)),
                  isFavorite = False\<rparr>] \<and>
         books (fst (saveBook srv st)) = books st @ [created] \<and>
         (created = withId (created_body (payload (form st))) i \<longrightarrow>
            books (fst (saveBook srv st)) =
              books st @
              [\<lparr>title = trim (title (form st)),
                author = trim (author (form st)),
                coverImage = (if trim (coverImage (form st)) = [] then placeholder
                              else trim (coverImage (form st))),
                description = trim (description (form st)),
                rating = (if rating (form st) < 0 then 0
                          else if 5 < rating (form st) then 5 else rating (form st)),
                isFavorite = False,
                bookId = i\<rparr>])"
proof -
  have r: "max 0 (min 5 (rating (form st))) =
           (if rating (form st) < 0 then 0
            else if 5 < rating (form st) then 5 else rating (form st))"
    by simp
  have b: "created_body (payload (form st)) =
           \<lparr>title = trim (title (form st)),
            author = trim (author (form st)),
            coverImage = (if trim (coverImage (form st)) = [] then placeholder
                          else trim (coverImage (form st))),
            description = trim (description (form st)),
            rating = (if rating (form st) < 0 then 0
                      else if 5 < rating (form st) then 5 else rating (form st)),
            isFavorite = False\<rparr>"
    unfolding created_body_def payload_def r by simp
  have s: "saveBook srv st =
     (resetForm (closeModal (showToast ''Book added'' Success
        (st\<lparr>books := books st @ [created]\<rparr>))),
      [POST (created_body (payload (form st)))])"
    using assms by (rule saveBook_create_success)
  have a: "books (fst (saveBook srv st)) = books st @ [created]"
    unfolding s by (simp add: resetForm_def closeModal_def showToast_def)
  have t: "snd (saveBook srv st) = [POST (created_body (payload (form st)))]"
    unfolding s by simp
  show ?thesis
    unfolding a t unfolding b by (simp add: withId_def)
qed

theorem create_submits_and_appends_witness:
  "trim (title (form draftPadded)) \<noteq> [] \<and>
   trim (author (form draftPadded)) \<noteq> [] \<and>
   editing draftPadded = None \<and>
   apiPost (restServer ''2'' []) (created_body (payload (form draftPadded))) =
     Inr (withId (created_body (payload (form draftPadded))) ''2'') \<and>
   books (fst (saveBook (restServer ''2'' []) draftPadded)) =
     [dune,
      \<lparr>title = ''Emma'', author = ''Austen'', coverImage = ''https://example.org/emma.png'',
       description = [], rating = 5, isFavorite = False, bookId = ''2''\<rparr>]"
proof -
  have v: "trim (title (form draftPadded)) \<noteq> []" "trim (author (form draftPadded)) \<noteq> []"
    by code_simp+
  have e: "editing draftPadded = None"
    by (simp add: draftPadded_def openCreate_def resetForm_def)
  have p: "apiPost (restServer ''2'' []) (created_body (payload (form draftPadded))) =
           Inr (withId (created_body (payload (form draftPadded))) ''2'')"
    by (simp add: apiPost_def parsed_def restServer_def)
  have f: "trim (title (form draftPadded)) = ''Emma''"
    "trim (author (form draftPadded)) = ''Austen''"
    "trim (coverImage (form draftPadded)) = ''https://example.org/emma.png''"
    "trim (description (form draftPadded)) = []"
    "rating (form draftPadded) = 5"
    "books draftPadded = [dune]"
    by code_simp+
  have "books (fst (saveBook (restServer ''2'' []) draftPadded)) =
          books draftPadded @
          [\<lparr>title = trim (title (form draftPadded)),
            author = trim (author (form draftPadded)),
            coverImage = (if trim (coverImage (form draftPadded)) = [] then placeholder
                          else trim (coverImage (form draftPadded))),
            description = trim (description (form draftPadded)),
            rating = (if rating (form draftPadded) < 0 then 0
                      else if 5 < rating (form draftPadded) then 5
                      else rating (form draftPadded)),
            isFavorite = False,
            bookId = ''2''\<rparr>]"
    using create_submits_and_appends [OF v e p, of "''2''"] by blast
  then have "books (fst (saveBook (restServer ''2'' []) draftPadded)) =
     [dune,
      \<lparr>title = ''Emma'', author = ''Austen'', coverImage = ''https://example.org/emma.png'',
       description = [], rating = 5, isFavorite = False, bookId = ''2''\<rparr>]"
    unfolding f by simp
  with v e p show ?thesis
    by blast
qed

text \<open>
  C2 as stated fails: for a cover URL typed with a leading blank the record submitted and
  stored does not carry the draft's value but the trimmed one.
\<close>

theorem create_keeps_draft_cover_counterexample:
  "trim (title (form draftPadded)) \<noteq> [] \<and>
   trim (author (form draftPadded)) \<noteq> [] \<and>
   editing draftPadded = None \<and>
   trim (coverImage (form draftPadded)) \<noteq> [] \<and>
   snd (saveBook (restServer ''2'' []) draftPadded) = [POST emmaBody] \<and>
   apiPost (restServer ''2'' []) emmaBody = Inr (withId emmaBody ''2'') \<and>
   books (fst (saveBook (restServer ''2'' []) draftPadded)) = [dune, withId emmaBody ''2''] \<and>
   coverImage emmaBody \<noteq> coverImage (form draftPadded) \<and>
   coverImage (withId emmaBody ''2'') \<noteq> coverImage (form draftPadded)"
proof -
  have v: "trim (title (form draftPadded)) \<noteq> []" "trim (author (form draftPadded)) \<noteq> []"
    "trim (coverImage (form draftPadded)) \<noteq> []"
    by code_simp+
  have e: "editing draftPadded = None"
    by (simp add: draftPadded_def openCreate_def resetForm_def)
  have t: "snd (saveBook (restServer ''2'' []) draftPadded) = [POST emmaBody]"
    by code_simp
  have p: "apiPost (restServer ''2'' []) emmaBody = Inr (withId emmaBody ''2'')"
    by (simp add: apiPost_def parsed_def restServer_def)
  have b: "books (fst (saveBook (restServer ''2'' []) draftPadded)) = [dune, withId emmaBody ''2'']"
    by code_simp
  have c: "coverImage emmaBody \<noteq> coverImage (form draftPadded)"
    "coverImage (withId emmaBody ''2'') \<noteq> coverImage (form draftPadded)"
    by (simp_all add: emmaBody_def draftPadded_def withId_def)
  from v e t p b c show ?thesis
    by blast
qed

section \<open>No two records with the same id\<close>

lemma initialLoad_distinct:
  "distinct (map bookId (books st)) \<Longrightarrow> id_rules srv InitialLoad st \<Longrightarrow>
   distinct (map bookId (books (fst (initialLoad srv st))))"
  by (auto simp: initialLoad_def showToast_def split: sum.splits get_data.splits if_splits)

lemma saveBook_distinct:
  "distinct (map bookId (books st)) \<Longrightarrow> id_rules srv SaveBook st \<Longrightarrow>
   distinct (map bookId (books (fst (saveBook srv st))))"
  by (auto simp: saveBook_def showToast_def closeModal_def resetForm_def replaceById_ids
      split: sum.splits option.splits if_splits)

lemma toggleFav_distinct:
  "distinct (map bookId (books st)) \<Longrightarrow>
   distinct (map bookId (books (fst (toggleFav srv b st))))"
  by (auto simp: toggleFav_def showToast_def replaceById_ids split: sum.splits)

lemma doDelete_distinct:
  "distinct (map bookId (books st)) \<Longrightarrow>
   distinct (map bookId (books (fst (doDelete srv st))))"
  by (auto simp: doDelete_def showToast_def distinct_map_filter split: sum.splits option.splits)

lemma step_distinct:
  assumes d: "distinct (map bookId (books st))" and r: "id_rules srv a st"
  shows "distinct (map bookId (books (fst (step srv a st))))"
proof (cases a)
  case InitialLoad
  with r show ?thesis
    by (simp add: initialLoad_distinct [OF d])
next
  case SaveBook
  with r show ?thesis
    by (simp add: saveBook_distinct [OF d])
next
  case (ToggleFav b)
  then show ?thesis
    by (simp add: toggleFav_distinct [OF d])
next
  case DoDelete
  then show ?thesis
    by (simp add: doDelete_distinct [OF d])
qed (simp_all add: d openCreate_def openEdit_def closeModal_def resetForm_def askDelete_def
       cancelDelete_def)

lemma run_distinct:
  "distinct (map bookId (books st)) \<Longrightarrow> run_rules evs st \<Longrightarrow>
   distinct (map bookId (books (run evs st)))"
proof (induction evs arbitrary: st)
  case Nil
  then show ?case by simp
next
  case (Cons ev evs)
  obtain srv a where ev: "ev = (srv, a)"
    by (cases ev)
  from Cons.prems have "distinct (map bookId (books (fst (step srv a st))))"
    unfolding ev by (simp add: step_distinct)
  moreover from Cons.prems have "run_rules evs (fst (step srv a st))"
    unfolding ev by simp
  ultimately show ?case
    unfolding ev by (simp add: Cons.IH)
qed

lemma run_rules_take: "run_rules evs st \<Longrightarrow> run_rules (take k evs) st"
proof (induction evs arbitrary: st k)
  case Nil
  then show ?case by simp
next
  case (Cons ev evs)
  then show ?case
    by (cases k; cases ev) simp_all
qed

text \<open>
  C5. Start from the initial state and run any sequence of intents, each to completion,
  against a remote resource that follows the rules for ids at every step (listed records
  have pairwise different ids, a created record has an id that no record of the store
  has, a replaced record comes back under the id of the request). Then the store never
  holds two records with the same id: not at the end and not after any prefix.
\<close>

theorem store_ids_distinct:
  assumes "run_rules evs initialApp"
  shows "distinct (map bookId (books (run evs initialApp))) \<and>
         (\<forall>k\<le>length evs. distinct (map bookId (books (run (take k evs) initialApp))))"
proof -
  have i: "distinct (map bookId (books initialApp))"
    by (simp add: initialApp_def)
  from assms have "\<And>k. run_rules (take k evs) initialApp"
    by (rule run_rules_take)
  with i assms show ?thesis
    by (simp add: run_distinct)
qed

theorem store_ids_distinct_witness:
  "run_rules sampleSession initialApp \<and>
   map bookId (books (run (take 5 sampleSession) initialApp)) = [''1'', ''2''] \<and>
   books (run sampleSession initialApp) = [dune\<lparr>isFavorite := True, rating := 5\<rparr>] \<and>
   distinct (map bookId (books (run sampleSession initialApp)))"
proof -
  have r: "run_rules sampleSession initialApp"
    by code_simp
  have m: "map bookId (books (run (take 5 sampleSession) initialApp)) = [''1'', ''2'']"
    by code_simp
  have b: "books (run sampleSession initialApp) = [dune\<lparr>isFavorite := True, rating := 5\<rparr>]"
    by code_simp
  from store_ids_distinct [OF r] r m b show ?thesis
    by blast
qed

end
